theory Spec2Isabelle
  imports Complex_Main "HOL-Library.Word"
begin

unbundle bit_operations_syntax

section \<open>JavaScript values\<close>

text \<open>
  Strings are byte strings (the UTF-8 encoding that \<^verbatim>\<open>hmac.update\<close> hashes).
  A thrown exception is a value of type \<open>error\<close>; \<open>message\<close> is its
  \<^verbatim>\<open>.message\<close>.
\<close>

type_synonym byte = "8 word"

datatype error = Error string | TypeError string | ReferenceError string

fun message :: "error \<Rightarrow> string" where
  "message (Error m) = m"
| "message (TypeError m) = m"
| "message (ReferenceError m) = m"

text \<open>
  A number parsed from JSON is a binary64 value: a rational, or an infinity when the
  literal overflows.
\<close>

datatype jsnum = Num rat | PosInfinity | NegInfinity

datatype json =
    JNull
  | JBool bool
  | JNum jsnum
  | JStr string
  | JArr "json list"
  | JObj "(string \<times> json) list"

text \<open>A JavaScript value that came from JSON; \<open>None\<close> is \<^verbatim>\<open>undefined\<close>.\<close>

type_synonym jsval = "json option"

fun truthy :: "jsval \<Rightarrow> bool" where
  "truthy None = False"
| "truthy (Some JNull) = False"
| "truthy (Some (JBool b)) = b"
| "truthy (Some (JNum n)) = (n \<noteq> Num 0)"
| "truthy (Some (JStr s)) = (s \<noteq> [])"
| "truthy (Some (JArr xs)) = True"
| "truthy (Some (JObj kv)) = True"

text \<open>\<^verbatim>\<open>a || b\<close>\<close>

definition or_else :: "jsval \<Rightarrow> jsval \<Rightarrow> jsval" where
  "or_else a b = (if truthy a then a else b)"

text \<open>
  Reading a named field \<^verbatim>\<open>v.k\<close> (also by destructuring). The fields read by
  this program (\<^verbatim>\<open>id\<close>, \<^verbatim>\<open>applicantAddress\<close>, ...) are own properties of
  objects only; reading any property of \<^verbatim>\<open>undefined\<close> or \<^verbatim>\<open>null\<close> throws.
\<close>

fun getProp :: "jsval \<Rightarrow> string \<Rightarrow> error + jsval" where
  "getProp None k = Inl (TypeError (''Cannot read properties of undefined (reading '' @ k @ '')''))"
| "getProp (Some JNull) k = Inl (TypeError (''Cannot read properties of null (reading '' @ k @ '')''))"
| "getProp (Some (JObj kv)) k = Inr (map_of kv k)"
| "getProp (Some (JBool b)) k = Inr None"
| "getProp (Some (JNum n)) k = Inr None"
| "getProp (Some (JStr s)) k = Inr None"
| "getProp (Some (JArr xs)) k = Inr None"

fun join :: "string \<Rightarrow> string list \<Rightarrow> string" where
  "join sep [] = []"
| "join sep [x] = x"
| "join sep (x # y # ys) = x @ sep @ join sep (y # ys)"

text \<open>
  \<^verbatim>\<open>String(v)\<close>, as a template literal applies it. The digits of a number are the
  runtime's business (\<open>num2str\<close>).
\<close>

fun toStr :: "(jsnum \<Rightarrow> string) \<Rightarrow> json \<Rightarrow> string" where
  "toStr num2str JNull = ''null''"
| "toStr num2str (JBool b) = (if b then ''true'' else ''false'')"
| "toStr num2str (JNum n) = num2str n"
| "toStr num2str (JStr s) = s"
| "toStr num2str (JArr xs) = join '','' (map (\<lambda>x. if x = JNull then [] else toStr num2str x) xs)"
| "toStr num2str (JObj kv) = ''[object Object]''"

definition toString :: "(jsnum \<Rightarrow> string) \<Rightarrow> jsval \<Rightarrow> string" where
  "toString num2str v = (case v of None \<Rightarrow> ''undefined'' | Some j \<Rightarrow> toStr num2str j)"

text \<open>\<^verbatim>\<open>s.includes(sub)\<close>\<close>

fun includes_js :: "string \<Rightarrow> string \<Rightarrow> bool" where
  "includes_js [] sub = (sub = [])"
| "includes_js (c # cs) sub = (take (length sub) (c # cs) = sub \<or> includes_js cs sub)"

text \<open>\<^verbatim>\<open>xs.find(p)\<close>\<close>

definition find_js :: "('a \<Rightarrow> bool) \<Rightarrow> 'a list \<Rightarrow> 'a option" where
  "find_js p xs = List.find p xs"

text \<open>An object literal as \<^verbatim>\<open>res.json\<close> serialises it: undefined fields are dropped.\<close>

definition obj :: "(string \<times> jsval) list \<Rightarrow> json" where
  "obj kvs = JObj (List.map_filter (\<lambda>(k, v). map_option (Pair k) v) kvs)"

text \<open>The process environment, and \<^verbatim>\<open>process.env.X || d\<close>.\<close>

type_synonym env = "string \<rightharpoonup> string"

definition env_or :: "env \<Rightarrow> string \<Rightarrow> string \<Rightarrow> string" where
  "env_or env x d = (case env x of None \<Rightarrow> d | Some v \<Rightarrow> if v = [] then d else v)"

section \<open>Node's \<^verbatim>\<open>crypto\<close> and \<^verbatim>\<open>Buffer\<close>\<close>

text \<open>
  \<^verbatim>\<open>crypto.createHmac('sha256', key).update(data).digest()\<close> belongs to Node, not
  to the repository: it is the parameter \<open>hmacSha256\<close> of \<open>lib\<close> below, and what a
  theorem needs of it (a 32-byte digest) is a stated hypothesis.
\<close>

definition bytes_of :: "string \<Rightarrow> byte list" where
  "bytes_of s = map (\<lambda>c. word_of_nat (of_char c)) s"

text \<open>\<^verbatim>\<open>buf.slice(a, b)\<close> for \<open>a \<le> b\<close>, both non-negative.\<close>

definition slice :: "'a list \<Rightarrow> nat \<Rightarrow> nat \<Rightarrow> 'a list" where
  "slice xs a b = take (b - a) (drop a xs)"

text \<open>\<^verbatim>\<open>buf.toString('hex')\<close> and \<^verbatim>\<open>buf.toString('base64')\<close>\<close>

definition hex_digit :: "nat \<Rightarrow> char" where
  "hex_digit n = ''0123456789abcdef'' ! (n mod 16)"

definition toHex :: "byte list \<Rightarrow> string" where
  "toHex bs = concat (map (\<lambda>b. [hex_digit (unat b div 16), hex_digit (unat b)]) bs)"

definition b64_digit :: "nat \<Rightarrow> char" where
  "b64_digit n =
     ''ABCDEFGHIJKLMNOPQRSTUVWXYZabcdefghijklmnopqrstuvwxyz0123456789+/'' ! (n mod 64)"

fun toBase64 :: "byte list \<Rightarrow> string" where
  "toBase64 (a # b # c # rest) =
     [b64_digit (unat a div 4), b64_digit (unat a mod 4 * 16 + unat b div 16),
      b64_digit (unat b mod 16 * 4 + unat c div 64), b64_digit (unat c)] @ toBase64 rest"
| "toBase64 [a, b] =
     [b64_digit (unat a div 4), b64_digit (unat a mod 4 * 16 + unat b div 16),
      b64_digit (unat b mod 16 * 4), CHR ''='']"
| "toBase64 [a] = [b64_digit (unat a div 4), b64_digit (unat a mod 4 * 16), CHR ''='', CHR ''='']"
| "toBase64 [] = []"

section \<open>The Sui SDK and the network\<close>

text \<open>
  The SDK (\<^verbatim>\<open>@mysten/sui\<close>) and the full node are outside the repository. What the
  code passes to them and reads from their answers is modelled; what they compute is a
  parameter (\<open>lib\<close>, \<open>client\<close>).
\<close>

record keypair =
  kp_publicKey :: "byte list"
  kp_secretKey :: "byte list"

text \<open>The arguments of a move call, as \<^verbatim>\<open>tx.object\<close> and \<^verbatim>\<open>tx.pure.*\<close> receive them.\<close>

datatype tx_arg = ObjectArg jsval | PureAddress jsval | PureString jsval | PureU64 jsval

record transaction =
  target :: string
  arguments :: "tx_arg list"
  typeArguments :: "string list"
  gasBudget :: "nat option"

record sign_request =
  sr_url :: string
  sr_signer :: keypair
  sr_transaction :: transaction
  sr_options :: "string list"

record inspect_request =
  ir_url :: string
  ir_transactionBlock :: transaction
  ir_sender :: jsval

datatype rpc = SignAndExecuteTransaction sign_request | DevInspectTransactionBlock inspect_request

record tx_effects =
  status :: string \<comment> \<open>\<^verbatim>\<open>effects.status.status\<close>\<close>
  status_error :: "string option" \<comment> \<open>\<^verbatim>\<open>effects.status.error\<close>\<close>
  gasUsed :: jsval

record object_change =
  change_type :: string \<comment> \<open>\<^verbatim>\<open>change.type\<close>\<close>
  objectType :: string
  objectId :: string

record tx_response =
  digest :: string
  effects :: "tx_effects option"
  objectChanges :: "object_change list option"

record exec_result =
  returnValues :: "(nat list \<times> string) list option"

record inspect_response =
  ins_effects :: tx_effects
  results :: "exec_result list option"

record lib =
  numberToString :: "jsnum \<Rightarrow> string"
  hmacSha256 :: "byte list \<Rightarrow> byte list \<Rightarrow> byte list" \<comment> \<open>key, then data\<close>
  fromSecretKey :: "byte list \<Rightarrow> error + keypair" \<comment> \<open>\<^verbatim>\<open>Ed25519Keypair.fromSecretKey\<close>\<close>
  newKeypair :: "byte list \<Rightarrow> keypair" \<comment> \<open>\<^verbatim>\<open>new Ed25519Keypair()\<close>, from the random bytes it draws\<close>
  deriveKeypair :: "string \<Rightarrow> error + keypair" \<comment> \<open>\<^verbatim>\<open>Ed25519Keypair.deriveKeypair\<close>\<close>
  getSecretKey :: "keypair \<Rightarrow> string"
  toSuiAddress :: "byte list \<Rightarrow> string" \<comment> \<open>of a public key\<close>
  isValidSuiAddress :: "jsval \<Rightarrow> bool"
  checkArg :: "tx_arg \<Rightarrow> error option" \<comment> \<open>what \<^verbatim>\<open>tx.object\<close> or \<^verbatim>\<open>tx.pure.*\<close> throws, if it does\<close>
  stringify :: "tx_response \<Rightarrow> string" \<comment> \<open>\<^verbatim>\<open>JSON.stringify(result, null, 2)\<close>\<close>

text \<open>The full node: its answer to a request, given the requests it has seen.\<close>

record client =
  signAndExecuteTransaction :: "rpc list \<Rightarrow> sign_request \<Rightarrow> error + tx_response"
  devInspectTransactionBlock :: "rpc list \<Rightarrow> inspect_request \<Rightarrow> error + inspect_response"

text \<open>
  What a call can depend on besides its arguments, and what it can change: the clock,
  the random generator, and the requests sent to the full node so far.
\<close>

record world =
  now :: string \<comment> \<open>\<^verbatim>\<open>new Date().toISOString()\<close>\<close>
  entropy :: "nat \<Rightarrow> byte"
  cursor :: nat
  calls :: "rpc list"

type_synonym 'a io = "world \<Rightarrow> (error + 'a) \<times> world"

definition randomBytes :: "nat \<Rightarrow> world \<Rightarrow> byte list \<times> world" where
  "randomBytes n w = (map (entropy w) [cursor w..<cursor w + n], w\<lparr>cursor := cursor w + n\<rparr>)"

definition client_signAndExecuteTransaction :: "client \<Rightarrow> sign_request \<Rightarrow> tx_response io" where
  "client_signAndExecuteTransaction cl req w =
     (signAndExecuteTransaction cl (calls w) req,
      w\<lparr>calls := calls w @ [SignAndExecuteTransaction req]\<rparr>)"

definition client_devInspectTransactionBlock :: "client \<Rightarrow> inspect_request \<Rightarrow> inspect_response io" where
  "client_devInspectTransactionBlock cl req w =
     (devInspectTransactionBlock cl (calls w) req,
      w\<lparr>calls := calls w @ [DevInspectTransactionBlock req]\<rparr>)"

text \<open>
  The argument list of \<^verbatim>\<open>tx.moveCall\<close> is evaluated left to right; the first
  constructor that throws ends it.
\<close>

fun mk_args :: "lib \<Rightarrow> tx_arg list \<Rightarrow> error + tx_arg list" where
  "mk_args lib [] = Inr []"
| "mk_args lib (a # as) =
     (case checkArg lib a of
        Some e \<Rightarrow> Inl e
      | None \<Rightarrow> (case mk_args lib as of Inl e \<Rightarrow> Inl e | Inr as' \<Rightarrow> Inr (a # as')))"

section \<open>Custodial wallet derivation (\<^verbatim>\<open>createCustodialWallet.js\<close>)\<close>

definition wordlist :: "string list" where
  "wordlist =
   [''abandon'', ''ability'', ''able'', ''about'', ''above'', ''absent'', ''absorb'', ''abstract'',
    ''absurd'', ''abuse'', ''access'', ''accident'', ''account'', ''accuse'', ''achieve'', ''acid'',
    ''acoustic'', ''acquire'', ''across'', ''act'', ''action'', ''actor'', ''actress'', ''actual'',
    ''adapt'', ''add'', ''addict'', ''address'', ''adjust'', ''admit'', ''adult'', ''advance'',
    ''advice'', ''aerobic'', ''affair'', ''afford'', ''afraid'', ''again'', ''against'', ''agent'',
    ''agree'', ''ahead'', ''aim'', ''air'', ''airport'', ''aisle'', ''alarm'', ''album'',
    ''alcohol'', ''alert'', ''alien'', ''all'', ''alley'', ''allow'', ''almost'', ''alone'',
    ''alpha'', ''already'', ''also'', ''alter'', ''always'', ''amateur'', ''amazing'', ''among'',
    ''amount'', ''amused'', ''analyst'', ''anchor'', ''ancient'', ''anger'', ''angle'', ''angry'',
    ''animal'', ''ankle'', ''announce'', ''annual'', ''another'', ''answer'', ''antenna'', ''antique'',
    ''anxiety'', ''any'', ''apart'', ''apology'', ''appear'', ''apple'', ''approve'', ''april'',
    ''arcade'', ''arch'', ''arctic'', ''area'', ''arena'', ''argue'', ''arm'', ''armed'',
    ''armor'', ''army'', ''around'', ''arrange'', ''arrest'', ''arrive'', ''arrow'', ''art'',
    ''article'', ''artist'', ''artwork'', ''ask'', ''aspect'', ''assault'', ''asset'', ''assist'',
    ''assume'', ''asthma'', ''athlete'', ''atom'', ''attack'', ''attend'', ''attitude'', ''attract'',
    ''auction'', ''audit'', ''august'', ''aunt'', ''author'', ''auto'', ''autumn'', ''average'',
    ''avocado'', ''avoid'', ''awake'', ''aware'', ''away'', ''awesome'', ''awful'', ''awkward'']"

text \<open>
  \<^verbatim>\<open>seed[i * 2]\<close> beyond the end of the buffer is \<^verbatim>\<open>undefined\<close>; the index is then
  \<^verbatim>\<open>NaN\<close>, the word \<^verbatim>\<open>undefined\<close>, and \<^verbatim>\<open>join\<close> writes it as the empty string.
\<close>

definition mnemonicWords :: "byte list \<Rightarrow> string list" where
  "mnemonicWords seed =
     map (\<lambda>i. if i * 2 < length seed
              then wordlist ! (unat (seed ! (i * 2)) mod length wordlist)
              else [])
         [0..<12]"

definition generateMnemonicFromSeed :: "byte list \<Rightarrow> string" where
  "generateMnemonicFromSeed seed = join '' '' (mnemonicWords seed)"

record wallet =
  address :: string
  publicKey :: string
  privateKey :: string
  privateKeyBase64 :: string
  mnemonic :: string
  seedHex :: string

text \<open>The local constants \<^verbatim>\<open>walletSecret\<close>, \<^verbatim>\<open>seedData\<close>, \<^verbatim>\<open>seed\<close> and \<^verbatim>\<open>privateKeyBytes\<close>.\<close>

definition walletSecret :: "env \<Rightarrow> string" where
  "walletSecret env = env_or env ''WALLET_SECRET'' ''default_secret_change_in_production''"

definition seedData :: "lib \<Rightarrow> jsval \<Rightarrow> jsval \<Rightarrow> jsval \<Rightarrow> string" where
  "seedData lib userID createdAt userSecret =
     toString (numberToString lib) userID @ '':'' @ toString (numberToString lib) createdAt
       @ '':'' @ toString (numberToString lib) userSecret"

definition seed :: "lib \<Rightarrow> env \<Rightarrow> jsval \<Rightarrow> jsval \<Rightarrow> jsval \<Rightarrow> byte list" where
  "seed lib env userID createdAt userSecret =
     hmacSha256 lib (bytes_of (walletSecret env))
       (bytes_of (seedData lib userID createdAt userSecret))"

text \<open>The digest length that HMAC-SHA256 has.\<close>

definition digest32 :: "lib \<Rightarrow> bool" where
  "digest32 lib = (\<forall>k m. length (hmacSha256 lib k m) = 32)"

definition privateKeyBytes :: "lib \<Rightarrow> env \<Rightarrow> jsval \<Rightarrow> jsval \<Rightarrow> jsval \<Rightarrow> byte list" where
  "privateKeyBytes lib env userID createdAt userSecret =
     slice (seed lib env userID createdAt userSecret) 0 32"

definition createCustodialWallet :: "lib \<Rightarrow> env \<Rightarrow> jsval \<Rightarrow> wallet io" where
  "createCustodialWallet lib env userDetails w =
     (case getProp userDetails ''id'' of Inl err \<Rightarrow> (Inl err, w) | Inr userID \<Rightarrow>
      case getProp userDetails ''created_at'' of Inl err \<Rightarrow> (Inl err, w) | Inr createdAt \<Rightarrow>
      case getProp userDetails ''secret_key'' of Inl err \<Rightarrow> (Inl err, w) | Inr userSecret \<Rightarrow>
      (let pkBytes = privateKeyBytes lib env userID createdAt userSecret
       in case fromSecretKey lib pkBytes of
            Inl err \<Rightarrow> (Inl err, w)
          | Inr keypair \<Rightarrow>
              (let secretKeyArray = getSecretKey lib keypair;
                   privateKeyHex = toHex pkBytes;
                   privateKeyB64 = toBase64 pkBytes;
                   pubKey = kp_publicKey keypair;
                   addr = toSuiAddress lib pubKey;
                   mnem = generateMnemonicFromSeed pkBytes
               in (Inr \<lparr>address = addr,
                        publicKey = toBase64 pubKey,
                        privateKey = privateKeyHex,
                        privateKeyBase64 = privateKeyB64,
                        mnemonic = mnem,
                        seedHex = toHex (slice (seed lib env userID createdAt userSecret) 0 32)\<rparr>,
                   w))))"

text \<open>
  \<^verbatim>\<open>createCustodialWalletWithStandardMnemonic\<close> draws a random keypair, reads its
  secret key, and then evaluates \<^verbatim>\<open>Buffer.from(privateKeyBytes)\<close>. No binding of
  \<^verbatim>\<open>privateKeyBytes\<close> is in scope there (the function declares none, nor does the
  module), so this throws a ReferenceError, which the \<^verbatim>\<open>catch\<close> block logs and
  throws again. The statements after it are never reached.
\<close>

definition createCustodialWalletWithStandardMnemonic :: "lib \<Rightarrow> env \<Rightarrow> jsval \<Rightarrow> wallet io" where
  "createCustodialWalletWithStandardMnemonic lib env userDetails w =
     (let (rnd, w') = randomBytes 32 w;
          keypair = newKeypair lib rnd;
          secretKeyArray = getSecretKey lib keypair
      in (Inl (ReferenceError ''privateKeyBytes is not defined''), w'))"

text \<open>\<^verbatim>\<open>s.split(c)\<close> for a one-character separator.\<close>

fun split_on :: "char \<Rightarrow> string \<Rightarrow> string list" where
  "split_on c [] = [[]]"
| "split_on c (x # xs) =
     (if x = c then [] # split_on c xs
      else (case split_on c xs of [] \<Rightarrow> [[x]] | u # us \<Rightarrow> (x # u) # us))"

section \<open>Vetting status (\<^verbatim>\<open>lib/statusOfVetting.js\<close>)\<close>

text \<open>\<^verbatim>\<open>process.env.X\<close> when it is truthy.\<close>

definition env_truthy :: "env \<Rightarrow> string \<Rightarrow> string option" where
  "env_truthy env x = (case env x of None \<Rightarrow> None | Some v \<Rightarrow> if v = [] then None else Some v)"

record vetting_status =
  vs_applicantAddress :: jsval
  hasApplied :: bool
  isApproved :: "bool option" \<comment> \<open>\<open>None\<close> is \<^verbatim>\<open>null\<close>\<close>
  vs_message :: string
  vs_error :: "string option" \<comment> \<open>set in the \<^verbatim>\<open>catch\<close> branch only\<close>

definition notApplied :: "jsval \<Rightarrow> vetting_status" where
  "notApplied applicantAddress =
     \<lparr>vs_applicantAddress = applicantAddress, hasApplied = False, isApproved = None,
      vs_message = ''This address has not applied'', vs_error = None\<rparr>"

text \<open>\<^verbatim>\<open>result.results?.[0]?.returnValues\<close>\<close>

definition returnValues_of :: "inspect_response \<Rightarrow> (nat list \<times> string) list option" where
  "returnValues_of result =
     (case results result of None \<Rightarrow> None | Some [] \<Rightarrow> None | Some (r # rs) \<Rightarrow> returnValues r)"

definition statusOfVetting :: "lib \<Rightarrow> client \<Rightarrow> env \<Rightarrow> jsval \<Rightarrow> vetting_status io" where
  "statusOfVetting lib cl env applicantAddress w =
     (let PACKAGE_ID = env_or env ''PACKAGE_ID'' ''YOUR_PACKAGE_ID'';
          VETTING_TABLE_ID = env_or env ''VETTING_TABLE_ID'' ''YOUR_VETTING_TABLE_ID'';
          url = env_or env ''SUI_NETWORK'' ''https://fullnode.testnet.sui.io''
      in if PACKAGE_ID = ''YOUR_PACKAGE_ID'' \<or> VETTING_TABLE_ID = ''YOUR_VETTING_TABLE_ID''
         then (Inl (Error ''PACKAGE_ID or VETTING_TABLE_ID not set in .env file''), w)
         else
           case mk_args lib [ObjectArg (Some (JStr VETTING_TABLE_ID)), PureAddress applicantAddress] of
             Inl err \<Rightarrow> (Inl err, w)
           | Inr args \<Rightarrow>
              (let tx = \<lparr>target = PACKAGE_ID @ ''::vetting::status_of_vetting'',
                         arguments = args, typeArguments = [], gasBudget = None\<rparr>
               in case client_devInspectTransactionBlock cl
                         \<lparr>ir_url = url, ir_transactionBlock = tx, ir_sender = applicantAddress\<rparr> w of
                    (Inl err, w') \<Rightarrow>
                      (Inr ((notApplied applicantAddress)\<lparr>vs_error := Some (message err)\<rparr>), w')
                  | (Inr result, w') \<Rightarrow>
                      if status (ins_effects result) \<noteq> ''success''
                      then (Inr (notApplied applicantAddress), w')
                      else
                        (case returnValues_of result of
                           None \<Rightarrow> (Inr (notApplied applicantAddress), w')
                         | Some [] \<Rightarrow> (Inr (notApplied applicantAddress), w')
                         | Some ((optionValue, ty) # vs) \<Rightarrow>
                             if length optionValue = 1 \<and> optionValue ! 0 = 0
                             then (Inr (notApplied applicantAddress), w')
                             else if length optionValue = 2 \<and> optionValue ! 0 = 1
                             then (let approved = (optionValue ! 1 = 1)
                                   in (Inr \<lparr>vs_applicantAddress = applicantAddress,
                                            hasApplied = True,
                                            isApproved = Some approved,
                                            vs_message = ''Approval status: ''
                                              @ (if approved then ''true'' else ''false''),
                                            vs_error = None\<rparr>, w'))
                             else (Inr \<lparr>vs_applicantAddress = applicantAddress,
                                        hasApplied = False,
                                        isApproved = None,
                                        vs_message = ''Unexpected return value'',
                                        vs_error = None\<rparr>, w'))))"

section \<open>Approving a vetting (\<^verbatim>\<open>lib/approveVetting.js\<close>)\<close>

record approve_result =
  ar_success :: bool
  ar_transactionDigest :: string
  ar_applicantAddress :: jsval
  ar_message :: string

definition approveVetting :: "lib \<Rightarrow> client \<Rightarrow> env \<Rightarrow> jsval \<Rightarrow> approve_result io" where
  "approveVetting lib cl env applicantAddress w =
     (let PACKAGE_ID = env_or env ''PACKAGE_ID'' ''YOUR_PACKAGE_ID'';
          VETTING_TABLE_ID = env_or env ''VETTING_TABLE_ID'' ''YOUR_VETTING_TABLE_ID'';
          ADMIN_CAP_ID = env_or env ''ADMIN_CAP'' ''YOUR_ADMIN_CAP_ID'';
          url = env_or env ''SUI_NETWORK'' ''https://fullnode.testnet.sui.io''
      in if PACKAGE_ID = ''YOUR_PACKAGE_ID'' \<or> VETTING_TABLE_ID = ''YOUR_VETTING_TABLE_ID''
              \<or> ADMIN_CAP_ID = ''YOUR_ADMIN_CAP_ID''
         then (Inl (Error
            ''Required environment variables not set: PACKAGE_ID, VETTING_TABLE_ID, or ADMIN_CAP''), w)
         else
           case env_truthy env ''MNEMONIC'' of
             None \<Rightarrow> (Inl (Error ''MNEMONIC is not set in the .env file''), w)
           | Some mnem \<Rightarrow>
           case deriveKeypair lib mnem of
             Inl err \<Rightarrow> (Inl err, w)
           | Inr keypair \<Rightarrow>
           case mk_args lib [ObjectArg (Some (JStr ADMIN_CAP_ID)),
                             ObjectArg (Some (JStr VETTING_TABLE_ID)),
                             PureAddress applicantAddress] of
             Inl err \<Rightarrow> (Inl err, w)
           | Inr args \<Rightarrow>
              (let tx = \<lparr>target = PACKAGE_ID @ ''::vetting::approve_vetting'',
                         arguments = args, typeArguments = [], gasBudget = None\<rparr>
               in case client_signAndExecuteTransaction cl
                         \<lparr>sr_url = url, sr_signer = keypair, sr_transaction = tx,
                          sr_options = [''showEffects'']\<rparr> w of
                    (Inl err, w') \<Rightarrow> (Inl err, w')
                  | (Inr result, w') \<Rightarrow>
                      (Inr \<lparr>ar_success = True,
                            ar_transactionDigest = digest result,
                            ar_applicantAddress = applicantAddress,
                            ar_message = ''Vetting approved successfully''\<rparr>, w')))"

section \<open>Minting (\<^verbatim>\<open>mintNFT\<close> of the server, \<^verbatim>\<open>mintRestrictedNFT.js\<close>)\<close>

text \<open>
  The body of a request as \<^verbatim>\<open>express.json()\<close> hands it over: an object. (An array
  has none of the fields read here and behaves as the empty object.)
\<close>

type_synonym body = "(string \<times> json) list"

text \<open>\<^verbatim>\<open>result.effects?.status.status !== 'success'\<close>\<close>

definition not_success :: "tx_response \<Rightarrow> bool" where
  "not_success result = (case effects result of None \<Rightarrow> True | Some ef \<Rightarrow> status ef \<noteq> ''success'')"

text \<open>\<^verbatim>\<open>result.effects?.status.error || d\<close>\<close>

definition status_error_or :: "tx_response \<Rightarrow> string \<Rightarrow> string" where
  "status_error_or result d =
     (case effects result of
        None \<Rightarrow> d
      | Some ef \<Rightarrow> (case status_error ef of None \<Rightarrow> d | Some m \<Rightarrow> if m = [] then d else m))"

text \<open>
  \<^verbatim>\<open>result.objectChanges?.find(change => change.type === 'created' &&
  change.objectType.includes(t))\<close>
\<close>

definition find_created :: "tx_response \<Rightarrow> string \<Rightarrow> object_change option" where
  "find_created result t =
     (case objectChanges result of
        None \<Rightarrow> None
      | Some changes \<Rightarrow>
          find_js (\<lambda>change. change_type change = ''created'' \<and> includes_js (objectType change) t)
            changes)"

text \<open>\<^verbatim>\<open>result.effects?.gasUsed\<close>\<close>

definition gasUsed_of :: "tx_response \<Rightarrow> jsval" where
  "gasUsed_of result = (case effects result of None \<Rightarrow> None | Some ef \<Rightarrow> gasUsed ef)"

record mint_result =
  mr_success :: bool
  mr_transactionDigest :: string
  nftObjectId :: string
  mr_recipientAddress :: jsval
  mr_nftName :: jsval
  mr_badgeCoinId :: jsval
  mr_gasUsed :: jsval
  fullResult :: tx_response

definition mint_options :: "string list" where
  "mint_options = [''showObjectChanges'', ''showEffects'', ''showEvents'', ''showBalanceChanges'',
                   ''showInput'']"

definition mintNFT :: "lib \<Rightarrow> client \<Rightarrow> env \<Rightarrow> body \<Rightarrow> mint_result io" where
  "mintNFT lib cl env params w =
     (let packageId = map_of params ''packageId'';
          supplyCapId = map_of params ''supplyCapId'';
          lineageId = map_of params ''lineageId'';
          counterId = map_of params ''counterId'';
          recipientAddress = map_of params ''recipientAddress'';
          nftName = map_of params ''nftName'';
          badgeCoinId = map_of params ''badgeCoinId'';
          nftVersion = (case map_of params ''nftVersion'' of
                          None \<Rightarrow> Some (JStr ''BRAAV16'') | Some v \<Rightarrow> Some v);
          clockObjectId = env_or env ''CLOCK_OBJECT_ID'' ''0x6''
      in case env_truthy env ''MNEMONIC'' of
           None \<Rightarrow> (Inl (Error ''MNEMONIC not set in environment variables''), w)
         | Some mnem \<Rightarrow>
         case env_truthy env ''SUI_NETWORK'' of
           None \<Rightarrow> (Inl (Error ''SUI_NETWORK not set in environment variables''), w)
         | Some suiNetwork \<Rightarrow>
         case deriveKeypair lib mnem of
           Inl err \<Rightarrow> (Inl err, w)
         | Inr keypair \<Rightarrow>
         (let nftType = toString (numberToString lib) packageId @ ''::xoa::''
                          @ toString (numberToString lib) nftVersion
          in case mk_args lib [PureString nftName, PureString badgeCoinId, ObjectArg supplyCapId,
                               ObjectArg lineageId, ObjectArg counterId,
                               PureAddress recipientAddress,
                               ObjectArg (Some (JStr clockObjectId))] of
               Inl err \<Rightarrow> (Inl err, w)
             | Inr args \<Rightarrow>
                (let tx = \<lparr>target = toString (numberToString lib) packageId
                                      @ ''::braav_public::mint_and_transfer'',
                           arguments = args, typeArguments = [nftType],
                           gasBudget = Some 10000000\<rparr>
                 in case client_signAndExecuteTransaction cl
                           \<lparr>sr_url = suiNetwork, sr_signer = keypair, sr_transaction = tx,
                            sr_options = mint_options\<rparr> w of
                      (Inl err, w') \<Rightarrow> (Inl err, w')
                    | (Inr result, w') \<Rightarrow>
                        if not_success result
                        then (Inl (Error (''Transaction failed: ''
                                            @ status_error_or result ''Unknown error'')), w')
                        else
                          (let createdNFT = find_created result ''::braav_public::NFT'';
                               nftObjId = (case createdNFT of
                                             None \<Rightarrow> ''Not found''
                                           | Some change \<Rightarrow> objectId change)
                           in (Inr \<lparr>mr_success = True,
                                    mr_transactionDigest = digest result,
                                    nftObjectId = nftObjId,
                                    mr_recipientAddress = recipientAddress,
                                    mr_nftName = nftName,
                                    mr_badgeCoinId = badgeCoinId,
                                    mr_gasUsed = gasUsed_of result,
                                    fullResult = result\<rparr>, w')))))"

record restricted_mint_result =
  rm_success :: bool
  rm_transactionDigest :: string
  restrictedNftObjectId :: string
  rm_recipientAddress :: jsval
  rm_nftName :: jsval
  rm_coinId :: jsval
  rm_braavVersion :: jsval
  rm_gasUsed :: jsval

text \<open>The twelve checks at the head of \<^verbatim>\<open>mintRestrictedNFT\<close>, in order.\<close>

definition restricted_precheck ::
  "lib \<Rightarrow> jsval \<Rightarrow> jsval \<Rightarrow> jsval \<Rightarrow> jsval \<Rightarrow> jsval \<Rightarrow> jsval \<Rightarrow> jsval \<Rightarrow> jsval \<Rightarrow> jsval \<Rightarrow> jsval
     \<Rightarrow> jsval \<Rightarrow> error option" where
  "restricted_precheck lib mnem packageId suiNetwork supplyCapId creatorCapId lineageId
       counterId recipientAddress nftName coinId braavVersion =
     (if \<not> truthy mnem then Some (Error ''MNEMONIC not set'')
      else if \<not> truthy packageId then Some (Error ''PACKAGE_ID not set'')
      else if \<not> truthy suiNetwork then Some (Error ''SUI_NETWORK not set'')
      else if \<not> truthy supplyCapId then Some (Error ''SUPPLY_CAP_ID not set'')
      else if \<not> truthy creatorCapId then Some (Error ''CREATOR_CAP_ID not set'')
      else if \<not> truthy lineageId then Some (Error ''LINEAGE_ID not set'')
      else if \<not> truthy counterId then Some (Error ''COUNTER_ID not set'')
      else if \<not> truthy recipientAddress then Some (Error ''RECIPIENT_ADDRESS not set'')
      else if \<not> isValidSuiAddress lib recipientAddress
        then Some (Error (''Invalid recipient address: ''
                            @ toString (numberToString lib) recipientAddress))
      else if \<not> truthy nftName then Some (Error ''nftName is required'')
      else if \<not> truthy coinId then Some (Error ''coinId is required'')
      else if \<not> truthy braavVersion then Some (Error ''braavVersion is required'')
      else None)"

definition restricted_options :: "string list" where
  "restricted_options = [''showObjectChanges'', ''showEffects'', ''showEvents'', ''showInput'']"

definition mintRestrictedNFT ::
  "lib \<Rightarrow> client \<Rightarrow> jsval \<Rightarrow> jsval \<Rightarrow> jsval \<Rightarrow> jsval \<Rightarrow> jsval \<Rightarrow> jsval \<Rightarrow> jsval \<Rightarrow> jsval \<Rightarrow> jsval
     \<Rightarrow> jsval \<Rightarrow> jsval \<Rightarrow> restricted_mint_result io" where
  "mintRestrictedNFT lib cl mnem packageId suiNetwork supplyCapId creatorCapId lineageId
       counterId recipientAddress nftName coinId braavVersion w =
     (case restricted_precheck lib mnem packageId suiNetwork supplyCapId creatorCapId
             lineageId counterId recipientAddress nftName coinId braavVersion of
        Some err \<Rightarrow> (Inl err, w)
      | None \<Rightarrow>
        case deriveKeypair lib (toString (numberToString lib) mnem) of
          Inl err \<Rightarrow> (Inl err, w)
        | Inr keypair \<Rightarrow>
        (let nftType = toString (numberToString lib) packageId @ ''::xoa::''
                         @ toString (numberToString lib) braavVersion
         in case mk_args lib [ObjectArg creatorCapId, ObjectArg supplyCapId, ObjectArg lineageId,
                              ObjectArg counterId, PureAddress recipientAddress,
                              PureString nftName, PureString coinId,
                              ObjectArg (Some (JStr ''0x6''))] of
              Inl err \<Rightarrow> (Inl err, w)
            | Inr args \<Rightarrow>
               (let tx = \<lparr>target = toString (numberToString lib) packageId
                                     @ ''::braav_public::mint_restricted'',
                          arguments = args, typeArguments = [nftType],
                          gasBudget = Some 10000000\<rparr>
                in case client_signAndExecuteTransaction cl
                          \<lparr>sr_url = toString (numberToString lib) suiNetwork,
                           sr_signer = keypair, sr_transaction = tx,
                           sr_options = restricted_options\<rparr> w of
                     (Inl err, w') \<Rightarrow> (Inl err, w')
                   | (Inr result, w') \<Rightarrow>
                       if not_success result
                       then (Inl (Error (''Transaction failed: ''
                                           @ status_error_or result (stringify lib result))), w')
                       else
                         (let createdRestrictedNFT =
                                find_created result ''::braav_public::RestrictedNFT''
                          in case createdRestrictedNFT of
                               None \<Rightarrow>
                                 (Inl (Error ''Failed to retrieve RestrictedNFT object ID''), w')
                             | Some change \<Rightarrow>
                                 if objectId change = []
                                 then (Inl (Error ''Failed to retrieve RestrictedNFT object ID''),
                                       w')
                                 else (Inr \<lparr>rm_success = True,
                                            rm_transactionDigest = digest result,
                                            restrictedNftObjectId = objectId change,
                                            rm_recipientAddress = recipientAddress,
                                            rm_nftName = nftName,
                                            rm_coinId = coinId,
                                            rm_braavVersion = braavVersion,
                                            rm_gasUsed = gasUsed_of result\<rparr>, w')))))"

section \<open>The HTTP server (\<^verbatim>\<open>server.js\<close>; \<^verbatim>\<open>apiServer.js\<close> has the same handlers)\<close>

record response =
  http_status :: nat
  http_body :: json

definition str :: "string \<Rightarrow> jsval" where
  "str s = Some (JStr s)"

text \<open>
  \<^verbatim>\<open>v.k\<close> for a value already known to be truthy; \<^verbatim>\<open>typeof\<close> and
  \<^verbatim>\<open>Array.isArray\<close> tests; \<^verbatim>\<open>n <= 0\<close>.
\<close>

definition member :: "jsval \<Rightarrow> string \<Rightarrow> jsval" where
  "member v k = (case v of Some (JObj kv) \<Rightarrow> map_of kv k | _ \<Rightarrow> None)"







definition bad_request :: "string \<Rightarrow> response" where
  "bad_request msg = \<lparr>http_status = 400, http_body = obj [(''error'', str msg)]\<rparr>"

definition server_error :: "string \<Rightarrow> response" where
  "server_error msg = \<lparr>http_status = 500, http_body = obj [(''error'', str msg)]\<rparr>"

definition endpoint_error :: "error \<Rightarrow> string \<Rightarrow> response" where
  "endpoint_error err path =
     \<lparr>http_status = 500,
      http_body = obj [(''error'', str (message err)), (''endpoint'', str path)]\<rparr>"

text \<open>The two validation middlewares differ in their list of fields only.\<close>

definition validate_fields :: "lib \<Rightarrow> string list \<Rightarrow> body \<Rightarrow> response option" where
  "validate_fields lib requiredFields body =
     (let missingFields = filter (\<lambda>field. \<not> truthy (map_of body field)) requiredFields
      in if length missingFields > 0
         then Some \<lparr>http_status = 400,
                    http_body = obj [(''success'', Some (JBool False)),
                                     (''error'', str ''Missing required fields''),
                                     (''missingFields'', Some (JArr (map JStr missingFields))),
                                     (''requiredFields'', Some (JArr (map JStr requiredFields)))]\<rparr>
         else if \<not> isValidSuiAddress lib (map_of body ''recipientAddress'')
         then Some \<lparr>http_status = 400,
                    http_body = obj [(''success'', Some (JBool False)),
                                     (''error'', str ''Invalid recipient address format''),
                                     (''recipientAddress'', map_of body ''recipientAddress'')]\<rparr>
         else None)"

definition mintRequiredFields :: "string list" where
  "mintRequiredFields = [''packageId'', ''supplyCapId'', ''lineageId'', ''counterId'',
                         ''recipientAddress'', ''nftName'', ''badgeCoinId'']"

definition restrictedMintRequiredFields :: "string list" where
  "restrictedMintRequiredFields = [''packageId'', ''supplyCapId'', ''creatorCapId'', ''lineageId'',
                                   ''counterId'', ''recipientAddress'', ''nftName'', ''coinId'',
                                   ''braavVersion'']"

definition validateMintRequest :: "lib \<Rightarrow> body \<Rightarrow> response option" where
  "validateMintRequest lib body = validate_fields lib mintRequiredFields body"

definition validateRestrictedMintRequest :: "lib \<Rightarrow> body \<Rightarrow> response option" where
  "validateRestrictedMintRequest lib body = validate_fields lib restrictedMintRequiredFields body"

definition approve_json :: "approve_result \<Rightarrow> json" where
  "approve_json r = obj [(''success'', Some (JBool (ar_success r))),
                         (''transactionDigest'', str (ar_transactionDigest r)),
                         (''applicantAddress'', ar_applicantAddress r),
                         (''message'', str (ar_message r))]"


definition wallet_json :: "wallet \<Rightarrow> json" where
  "wallet_json r = obj [(''address'', str (address r)),
                        (''publicKey'', str (publicKey r)),
                        (''privateKey'', str (privateKey r)),
                        (''privateKeyBase64'', str (privateKeyBase64 r)),
                        (''mnemonic'', str (mnemonic r)),
                        (''seedHex'', str (seedHex r))]"

definition post_approve_vetting :: "lib \<Rightarrow> client \<Rightarrow> env \<Rightarrow> body \<Rightarrow> world \<Rightarrow> response \<times> world" where
  "post_approve_vetting lib cl env body w =
     (let applicantAddress = map_of body ''applicantAddress''
      in if \<not> truthy applicantAddress
         then (bad_request ''applicantAddress is required in request body'', w)
         else case approveVetting lib cl env applicantAddress w of
                (Inl err, w') \<Rightarrow> (endpoint_error err ''/api/approve-vetting'', w')
              | (Inr result, w') \<Rightarrow> (\<lparr>http_status = 200, http_body = approve_json result\<rparr>, w'))"


text \<open>
  \<^verbatim>\<open>{id, created_at: ... || new Date().toISOString(), secret_key: ... ||
  crypto.randomBytes(32).toString('hex'), ...userDetails}\<close>: the fields that
  \<^verbatim>\<open>userDetails\<close> itself has win over the three in front (lookup takes the first entry).
\<close>

definition fields_of :: "jsval \<Rightarrow> (string \<times> json) list" where
  "fields_of v = (case v of Some (JObj kv) \<Rightarrow> kv | _ \<Rightarrow> [])"

definition completeUserDetails :: "jsval \<Rightarrow> world \<Rightarrow> jsval \<times> world" where
  "completeUserDetails userDetails w =
     (let created_at = or_else (member userDetails ''created_at'') (str (now w));
          (secret_key, w') = (if truthy (member userDetails ''secret_key'')
                              then (member userDetails ''secret_key'', w)
                              else (let (bs, w2) = randomBytes 32 w in (str (toHex bs), w2)))
      in (Some (JObj (fields_of userDetails
                       @ List.map_filter (\<lambda>(k, v). map_option (Pair k) v)
                           [(''id'', member userDetails ''id''),
                            (''created_at'', created_at),
                            (''secret_key'', secret_key)])),
          w'))"

definition post_create_wallet :: "lib \<Rightarrow> env \<Rightarrow> body \<Rightarrow> world \<Rightarrow> response \<times> world" where
  "post_create_wallet lib env body w =
     (let userDetails = map_of body ''userDetails'';
          useStandardMnemonic = map_of body ''useStandardMnemonic''
      in if \<not> truthy userDetails \<or> \<not> truthy (member userDetails ''id'')
         then (bad_request ''userDetails with id is required in request body'', w)
         else
           (let (complete, w1) = completeUserDetails userDetails w
            in case (if truthy useStandardMnemonic
                     then createCustodialWalletWithStandardMnemonic lib env complete w1
                     else createCustodialWallet lib env complete w1) of
                 (Inl err, w') \<Rightarrow> (endpoint_error err ''/api/create-wallet'', w')
               | (Inr result, w') \<Rightarrow>
                   (\<lparr>http_status = 200,
                     http_body = obj [(''success'', Some (JBool True)),
                                      (''wallet'', Some (wallet_json result)),
                                      (''message'', str ''Custodial wallet created successfully'')]\<rparr>,
                    w')))"






definition mint_failure :: "error \<Rightarrow> string \<Rightarrow> world \<Rightarrow> response" where
  "mint_failure err msg w =
     \<lparr>http_status = 500,
      http_body = obj [(''success'', Some (JBool False)),
                       (''message'', str msg),
                       (''error'', str (message err)),
                       (''timestamp'', str (now w))]\<rparr>"

definition post_mint_nft :: "lib \<Rightarrow> client \<Rightarrow> env \<Rightarrow> body \<Rightarrow> world \<Rightarrow> response \<times> world" where
  "post_mint_nft lib cl env body w =
     (case validateMintRequest lib body of
        Some rejected \<Rightarrow> (rejected, w)
      | None \<Rightarrow>
          case mintNFT lib cl env body w of
            (Inl err, w') \<Rightarrow> (mint_failure err ''Failed to mint NFT'' w', w')
          | (Inr result, w') \<Rightarrow>
              (\<lparr>http_status = 200,
                http_body = obj [(''success'', Some (JBool True)),
                                 (''message'', str ''NFT minted and transferred successfully''),
                                 (''data'', Some (obj
                                    [(''transactionDigest'', str (mr_transactionDigest result)),
                                     (''nftObjectId'', str (nftObjectId result)),
                                     (''recipientAddress'', mr_recipientAddress result),
                                     (''nftName'', mr_nftName result),
                                     (''badgeCoinId'', mr_badgeCoinId result),
                                     (''gasUsed'', mr_gasUsed result)])),
                                 (''timestamp'', str (now w'))]\<rparr>, w'))"

definition post_mint_restricted_nft ::
  "lib \<Rightarrow> client \<Rightarrow> env \<Rightarrow> body \<Rightarrow> world \<Rightarrow> response \<times> world" where
  "post_mint_restricted_nft lib cl env body w =
     (case validateRestrictedMintRequest lib body of
        Some rejected \<Rightarrow> (rejected, w)
      | None \<Rightarrow>
          case env_truthy env ''MNEMONIC'' of
            None \<Rightarrow> (server_error ''MNEMONIC not configured in environment variables'', w)
          | Some mnem \<Rightarrow>
          case env_truthy env ''SUI_NETWORK'' of
            None \<Rightarrow> (server_error ''SUI_NETWORK not configured in environment variables'', w)
          | Some suiNetwork \<Rightarrow>
          case mintRestrictedNFT lib cl (str mnem) (map_of body ''packageId'') (str suiNetwork)
                 (map_of body ''supplyCapId'') (map_of body ''creatorCapId'')
                 (map_of body ''lineageId'') (map_of body ''counterId'')
                 (map_of body ''recipientAddress'') (map_of body ''nftName'')
                 (map_of body ''coinId'') (map_of body ''braavVersion'') w of
            (Inl err, w') \<Rightarrow> (mint_failure err ''Failed to mint restricted NFT'' w', w')
          | (Inr result, w') \<Rightarrow>
              (\<lparr>http_status = 200,
                http_body = obj [(''success'', Some (JBool True)),
                                 (''message'', str ''Restricted NFT minted successfully''),
                                 (''data'', Some (obj
                                    [(''transactionDigest'', str (rm_transactionDigest result)),
                                     (''restrictedNftObjectId'', str (restrictedNftObjectId result)),
                                     (''recipientAddress'', rm_recipientAddress result),
                                     (''nftName'', rm_nftName result),
                                     (''coinId'', rm_coinId result),
                                     (''braavVersion'', rm_braavVersion result),
                                     (''gasUsed'', rm_gasUsed result)])),
                                 (''timestamp'', str (now w'))]\<rparr>, w'))"

text \<open>The routes that take fields in the request body, and the router.\<close>

datatype endpoint =
    ApproveVetting
  | StatusOfVetting
  | CreateWallet
  | CreateSupply
  | CreateDisplay
  | CreateRestrictedDisplay
  | MintNft
  | MintRestrictedNft


text \<open>
  The fields each route requires, as paths into the body: those its handler (or its
  validation middleware) rejects the request for when they are absent.
\<close>

fun requiredFields :: "endpoint \<Rightarrow> string list list" where
  "requiredFields ApproveVetting = [[''applicantAddress'']]"
| "requiredFields StatusOfVetting = [[''applicantAddress'']]"
| "requiredFields CreateWallet = [[''userDetails''], [''userDetails'', ''id'']]"
| "requiredFields CreateSupply = [[''supplyLimit''], [''tokenTypeName'']]"
| "requiredFields CreateDisplay = [[''displayKeys''], [''displayValues''], [''braavVersion'']]"
| "requiredFields CreateRestrictedDisplay =
     [[''displayKeys''], [''displayValues''], [''braavVersion'']]"
| "requiredFields MintNft = map (\<lambda>k. [k]) mintRequiredFields"
| "requiredFields MintRestrictedNft = map (\<lambda>k. [k]) restrictedMintRequiredFields"



section \<open>Sample inputs\<close>

text \<open>A stand-in for the SDK, a user, two environments and two states of the world.\<close>

definition lib0 :: lib where
  "lib0 = \<lparr>numberToString = (\<lambda>n. ''0''),
           hmacSha256 = (\<lambda>k m. take 32 (m @ k @ replicate 32 0)),
           fromSecretKey = (\<lambda>bs. Inr \<lparr>kp_publicKey = bs, kp_secretKey = bs\<rparr>),
           newKeypair = (\<lambda>bs. \<lparr>kp_publicKey = bs, kp_secretKey = bs\<rparr>),
           deriveKeypair = (\<lambda>m. Inr \<lparr>kp_publicKey = bytes_of m, kp_secretKey = bytes_of m\<rparr>),
           getSecretKey = (\<lambda>k. toHex (kp_secretKey k)),
           toSuiAddress = (\<lambda>pk. ''0x'' @ toHex pk),
           isValidSuiAddress = (\<lambda>v. case v of Some (JStr a) \<Rightarrow> take 2 a = ''0x'' | _ \<Rightarrow> False),
           checkArg = (\<lambda>a. None),
           stringify = (\<lambda>r. ''{}'')\<rparr>"

definition user0 :: jsval where
  "user0 = Some (JObj [(''id'', JStr ''user123''),
                       (''created_at'', JStr ''2024-01-15T10:30:00Z''),
                       (''secret_key'', JStr ''abc'')])"

definition user1 :: jsval where
  "user1 = Some (JObj [(''secret_key'', JStr ''abc''),
                       (''nickname'', JStr ''u''),
                       (''id'', JStr ''user123''),
                       (''created_at'', JStr ''2024-01-15T10:30:00Z'')])"

definition env0 :: env where
  "env0 = [''WALLET_SECRET'' \<mapsto> ''test'']"

definition env1 :: env where
  "env1 = [''WALLET_SECRET'' \<mapsto> ''test'', ''PORT'' \<mapsto> ''8080'']"

definition w0 :: world where
  "w0 = \<lparr>now = ''2024-01-15T10:30:00.000Z'', entropy = (\<lambda>i. 0), cursor = 0, calls = []\<rparr>"

definition w1 :: world where
  "w1 = \<lparr>now = ''2025-06-01T00:00:00.000Z'', entropy = (\<lambda>i. word_of_nat i), cursor = 7,
          calls = []\<rparr>"

definition env_cfg :: env where
  "env_cfg = [''PACKAGE_ID'' \<mapsto> ''0xpkg'', ''VETTING_TABLE_ID'' \<mapsto> ''0xtable'',
              ''ADMIN_CAP'' \<mapsto> ''0xadmin'', ''MNEMONIC'' \<mapsto> ''abandon ability able'',
              ''SUI_NETWORK'' \<mapsto> ''https://fullnode.testnet.sui.io'']"

definition effects_ok :: tx_effects where
  "effects_ok = \<lparr>status = ''success'', status_error = None, gasUsed = None\<rparr>"

definition effects_failed :: tx_effects where
  "effects_failed = \<lparr>status = ''failure'', status_error = Some ''MoveAbort'', gasUsed = None\<rparr>"

text \<open>A node that answers every inspection with the given encoded value.\<close>

definition cl_returning :: "nat list \<Rightarrow> client" where
  "cl_returning bytes =
     \<lparr>signAndExecuteTransaction = (\<lambda>log req. Inl (Error ''unused'')),
      devInspectTransactionBlock = (\<lambda>log req. Inr \<lparr>ins_effects = effects_ok,
         results = Some [\<lparr>returnValues = Some [(bytes, ''0x1::option::Option<bool>'')]\<rparr>]\<rparr>)\<rparr>"

text \<open>A node that cannot be reached.\<close>

definition cl_down :: client where
  "cl_down = \<lparr>signAndExecuteTransaction = (\<lambda>log req. Inl (Error ''fetch failed'')),
              devInspectTransactionBlock = (\<lambda>log req. Inl (Error ''fetch failed''))\<rparr>"

text \<open>
  A node that executes every transaction with the given effects and created objects.
\<close>

definition cl_executing :: "tx_effects \<Rightarrow> object_change list \<Rightarrow> client" where
  "cl_executing ef changes =
     \<lparr>signAndExecuteTransaction = (\<lambda>log req. Inr \<lparr>digest = ''9xDigest'', effects = Some ef,
         objectChanges = Some changes\<rparr>),
      devInspectTransactionBlock = (\<lambda>log req. Inl (Error ''unused''))\<rparr>"

definition coin_change :: object_change where
  "coin_change = \<lparr>change_type = ''mutated'', objectType = ''0x2::coin::Coin<0x2::sui::SUI>'',
                  objectId = ''0xgas''\<rparr>"

definition mint_body :: body where
  "mint_body = [(''packageId'', JStr ''0xpkg''), (''supplyCapId'', JStr ''0xcap''),
                (''lineageId'', JStr ''0xlin''), (''counterId'', JStr ''0xcnt''),
                (''recipientAddress'', JStr ''0xrecipient''), (''nftName'', JStr ''Gold''),
                (''badgeCoinId'', JStr ''coin_1'')]"

definition restricted_body :: body where
  "restricted_body = [(''packageId'', JStr ''0xpkg''), (''supplyCapId'', JStr ''0xcap''),
                      (''creatorCapId'', JStr ''0xcreator''), (''lineageId'', JStr ''0xlin''),
                      (''counterId'', JStr ''0xcnt''), (''recipientAddress'', JStr ''0xrecipient''),
                      (''nftName'', JStr ''Gold''), (''coinId'', JStr ''coin_1''),
                      (''braavVersion'', JStr ''BRAAV16'')]"


text \<open>What the theorems assume of the configuration and of the SDK.\<close>

definition vetting_configured :: "env \<Rightarrow> bool" where
  "vetting_configured env =
     (env_or env ''PACKAGE_ID'' ''YOUR_PACKAGE_ID'' \<noteq> ''YOUR_PACKAGE_ID'' \<and>
      env_or env ''VETTING_TABLE_ID'' ''YOUR_VETTING_TABLE_ID'' \<noteq> ''YOUR_VETTING_TABLE_ID'')"

definition vetting_args_accepted :: "lib \<Rightarrow> env \<Rightarrow> jsval \<Rightarrow> bool" where
  "vetting_args_accepted lib env applicantAddress =
     (checkArg lib (ObjectArg (Some (JStr (env_or env ''VETTING_TABLE_ID'' ''YOUR_VETTING_TABLE_ID''))))
        = None \<and>
      checkArg lib (PureAddress applicantAddress) = None)"

section \<open>Key derivation: seed length, mnemonic, determinism\<close>

lemma length_seed: "digest32 lib \<Longrightarrow> length (seed lib env i c s) = 32"
  by (simp add: seed_def digest32_def)

lemma privateKeyBytes_eq_seed:
  "digest32 lib \<Longrightarrow> privateKeyBytes lib env i c s = seed lib env i c s"
  by (simp add: privateKeyBytes_def slice_def length_seed)

lemma length_privateKeyBytes:
  "digest32 lib \<Longrightarrow> length (privateKeyBytes lib env i c s) = 32"
  by (simp add: privateKeyBytes_eq_seed length_seed)

lemma seed_lib_update:
  "seed (lib\<lparr>fromSecretKey := f\<rparr>) env i c s = seed lib env i c s"
  by (simp add: seed_def seedData_def)

lemma privateKeyBytes_lib_update:
  "privateKeyBytes (lib\<lparr>fromSecretKey := f\<rparr>) env i c s = privateKeyBytes lib env i c s"
  by (simp add: privateKeyBytes_def seed_lib_update)

lemma digest32_lib0: "digest32 lib0"
  by (auto simp: digest32_def lib0_def)

text \<open>
  Claim C7. Whatever the id, creation time, user secret and wallet secret are, and however
  long, the private-key bytes are exactly 32, given that the HMAC-SHA256 digest of the
  library has 32 bytes: \<^verbatim>\<open>slice(0, 32)\<close> keeps all of them. So the key constructor only
  ever receives 32 bytes: a constructor that first rejects every other length behaves the
  same.
\<close>

theorem seed_length_32:
  assumes "digest32 lib"
  shows "length (privateKeyBytes lib env userID createdAt userSecret) = 32 \<and>
         createCustodialWallet
           (lib\<lparr>fromSecretKey := \<lambda>bs. if length bs = 32 then fromSecretKey lib bs
                                       else Inl (Error ''Wrong secretKey size'')\<rparr>)
           env userDetails w
           = createCustodialWallet lib env userDetails w"
  using assms
  by (simp add: createCustodialWallet_def length_privateKeyBytes seed_lib_update
           privateKeyBytes_lib_update Let_def split: sum.splits)

theorem seed_length_32_witness:
  "digest32 lib0 \<and>
   length (privateKeyBytes lib0 env0 (Some (JStr ''user123''))
             (Some (JStr ''2024-01-15T10:30:00Z'')) (Some (JStr ''abc''))) = 32"
  using seed_length_32 [OF digest32_lib0, of env0 "Some (JStr ''user123'')"
      "Some (JStr ''2024-01-15T10:30:00Z'')" "Some (JStr ''abc'')" user0 w0]
    digest32_lib0
  by simp

lemma split_on_no_sep: "c \<notin> set x \<Longrightarrow> split_on c x = [x]"
  by (induction x) auto

lemma split_on_append: "c \<notin> set x \<Longrightarrow> split_on c (x @ c # r) = x # split_on c r"
  by (induction x) auto

lemma split_on_join:
  "ws \<noteq> [] \<Longrightarrow> \<forall>u \<in> set ws. c \<notin> set u \<Longrightarrow> split_on c (join [c] ws) = ws"
proof (induction "[c]" ws rule: join.induct)
  case 1
  then show ?case by simp
next
  case (2 x)
  then show ?case by (simp add: split_on_no_sep)
next
  case (3 x y ys)
  then show ?case by (simp add: split_on_append)
qed

lemma wordlist_length: "length wordlist = 136"
  unfolding wordlist_def by simp

lemma wordlist_no_space: "\<forall>u \<in> set wordlist. CHR '' '' \<notin> set u"
  unfolding wordlist_def by simp

lemma mnemonicWords_32:
  "length s = 32 \<Longrightarrow>
   mnemonicWords s = map (\<lambda>i. wordlist ! (unat (s ! (2 * i)) mod length wordlist)) [0..<12]"
  unfolding mnemonicWords_def by (intro map_cong) (auto simp: mult.commute)

lemma mnemonicWords_in_wordlist:
  "length s = 32 \<Longrightarrow> u \<in> set (mnemonicWords s) \<Longrightarrow> u \<in> set wordlist"
  by (auto simp: mnemonicWords_def wordlist_length)

lemma mnemonicWords_no_space:
  "length s = 32 \<Longrightarrow> \<forall>u \<in> set (mnemonicWords s). CHR '' '' \<notin> set u"
  using mnemonicWords_in_wordlist wordlist_no_space by blast

lemma length_mnemonicWords: "length (mnemonicWords s) = 12"
  by (simp add: mnemonicWords_def)

lemma split_generateMnemonicFromSeed:
  assumes "length s = 32"
  shows "split_on CHR '' '' (generateMnemonicFromSeed s) = mnemonicWords s"
proof -
  have "mnemonicWords s \<noteq> []"
    using length_mnemonicWords [of s] by auto
  then show ?thesis
    unfolding generateMnemonicFromSeed_def
    using mnemonicWords_no_space [OF assms] by (simp add: split_on_join)
qed

lemma createCustodialWallet_mnemonic:
  assumes "digest32 lib"
      and "getProp userDetails ''id'' = Inr userID"
      and "getProp userDetails ''created_at'' = Inr createdAt"
      and "getProp userDetails ''secret_key'' = Inr userSecret"
      and "fst (createCustodialWallet lib env userDetails w) = Inr wal"
  shows "mnemonic wal = generateMnemonicFromSeed (seed lib env userID createdAt userSecret)"
  using assms
  by (auto simp: createCustodialWallet_def Let_def privateKeyBytes_eq_seed split: sum.splits)

text \<open>The mnemonic forgets the seed: the odd bytes, for one, never reach it.\<close>

lemma mnemonic_lossy:
  "length (replicate 32 (0::byte)) = 32 \<and> length (replicate 31 (0::byte) @ [1]) = 32 \<and>
   replicate 32 (0::byte) \<noteq> replicate 31 0 @ [1] \<and>
   generateMnemonicFromSeed (replicate 32 0) = generateMnemonicFromSeed (replicate 31 0 @ [1])"
proof -
  have "replicate 32 (0::byte) ! 31 \<noteq> (replicate 31 0 @ [1]) ! 31"
    by (simp add: nth_append)
  then have "replicate 32 (0::byte) \<noteq> replicate 31 0 @ [1]"
    by metis
  moreover have "mnemonicWords (replicate 32 0) = mnemonicWords (replicate 31 0 @ [1])"
    unfolding mnemonicWords_def by (intro map_cong) (auto simp: nth_append)
  ultimately show ?thesis
    by (simp add: generateMnemonicFromSeed_def)
qed

text \<open>
  Claim C8. Given a 32-byte digest, the mnemonic of a derived wallet, split at its spaces,
  is exactly 12 words;
  word \<open>i\<close> is the entry of the word list at index (byte \<open>2 * i\<close> of the HMAC digest)
  modulo the size of the word list. It is computed from the digest alone and is not
  reversible: two different 32-byte seeds have the same mnemonic.
\<close>

theorem mnemonic_twelve_words:
  assumes "digest32 lib"
      and "getProp userDetails ''id'' = Inr userID"
      and "getProp userDetails ''created_at'' = Inr createdAt"
      and "getProp userDetails ''secret_key'' = Inr userSecret"
      and "fst (createCustodialWallet lib env userDetails w) = Inr wal"
  shows "(let digest = hmacSha256 lib (bytes_of (walletSecret env))
                         (bytes_of (seedData lib userID createdAt userSecret))
          in split_on CHR '' '' (mnemonic wal)
               = map (\<lambda>i. wordlist ! (unat (digest ! (2 * i)) mod length wordlist)) [0..<12])
         \<and> length (split_on CHR '' '' (mnemonic wal)) = 12
         \<and> set (split_on CHR '' '' (mnemonic wal)) \<subseteq> set wordlist
         \<and> (\<exists>s s'. length s = 32 \<and> length s' = 32 \<and> s \<noteq> s'
                \<and> generateMnemonicFromSeed s = generateMnemonicFromSeed s')"
proof -
  let ?s = "seed lib env userID createdAt userSecret"
  have len: "length ?s = 32" using assms(1) by (rule length_seed)
  have m: "mnemonic wal = generateMnemonicFromSeed ?s"
    using assms by (rule createCustodialWallet_mnemonic)
  have sp: "split_on CHR '' '' (mnemonic wal) = mnemonicWords ?s"
    unfolding m using len by (rule split_generateMnemonicFromSeed)
  have lossy: "\<exists>s s'. length s = 32 \<and> length s' = 32 \<and> s \<noteq> s'
                 \<and> generateMnemonicFromSeed s = generateMnemonicFromSeed s'"
    using mnemonic_lossy by blast
  show ?thesis
    unfolding sp Let_def
    using mnemonicWords_32 [OF len] mnemonicWords_in_wordlist [OF len]
      length_mnemonicWords [of ?s] lossy
    by (auto simp: seed_def)
qed

lemma createCustodialWallet_user0:
  "fst (createCustodialWallet lib0 env0 user0 w0)
     = Inr (projr (fst (createCustodialWallet lib0 env0 user0 w0)))"
  by (simp add: createCustodialWallet_def lib0_def user0_def Let_def)

theorem mnemonic_twelve_words_witness:
  "digest32 lib0 \<and>
   getProp user0 ''id'' = Inr (Some (JStr ''user123'')) \<and>
   getProp user0 ''created_at'' = Inr (Some (JStr ''2024-01-15T10:30:00Z'')) \<and>
   getProp user0 ''secret_key'' = Inr (Some (JStr ''abc'')) \<and>
   fst (createCustodialWallet lib0 env0 user0 w0)
     = Inr (projr (fst (createCustodialWallet lib0 env0 user0 w0))) \<and>
   length (split_on CHR '' '' (mnemonic (projr (fst (createCustodialWallet lib0 env0 user0 w0)))))
     = 12"
proof -
  have i: "getProp user0 ''id'' = Inr (Some (JStr ''user123''))"
    by (simp add: user0_def)
  have c: "getProp user0 ''created_at'' = Inr (Some (JStr ''2024-01-15T10:30:00Z''))"
    by (simp add: user0_def)
  have s: "getProp user0 ''secret_key'' = Inr (Some (JStr ''abc''))"
    by (simp add: user0_def)
  show ?thesis
    using mnemonic_twelve_words [OF digest32_lib0 i c s createCustodialWallet_user0]
      digest32_lib0 i c s createCustodialWallet_user0
    by simp
qed

text \<open>
  Claim C1. Two calls of \<^verbatim>\<open>createCustodialWallet\<close> whose user details agree on
  \<^verbatim>\<open>id\<close>, \<^verbatim>\<open>created_at\<close> and \<^verbatim>\<open>secret_key\<close>, under the same wallet secret,
  return the same outcome: the same wallet (address, public key, private key, mnemonic),
  or the same error. Neither the clock, the random generator, earlier requests, other
  fields of the user details nor other environment variables have any influence.
\<close>

theorem createCustodialWallet_deterministic:
  assumes "getProp userDetails ''id'' = getProp userDetails' ''id''"
      and "getProp userDetails ''created_at'' = getProp userDetails' ''created_at''"
      and "getProp userDetails ''secret_key'' = getProp userDetails' ''secret_key''"
      and "walletSecret env = walletSecret env'"
  shows "fst (createCustodialWallet lib env userDetails w)
           = fst (createCustodialWallet lib env' userDetails' w')"
  using assms
  by (simp add: createCustodialWallet_def Let_def privateKeyBytes_def seed_def
           split: sum.splits)

theorem createCustodialWallet_deterministic_witness:
  "getProp user0 ''id'' = getProp user1 ''id'' \<and>
   getProp user0 ''created_at'' = getProp user1 ''created_at'' \<and>
   getProp user0 ''secret_key'' = getProp user1 ''secret_key'' \<and>
   walletSecret env0 = walletSecret env1 \<and>
   user0 \<noteq> user1 \<and> w0 \<noteq> w1 \<and>
   fst (createCustodialWallet lib0 env0 user0 w0) = fst (createCustodialWallet lib0 env1 user1 w1)"
proof -
  have i: "getProp user0 ''id'' = getProp user1 ''id''"
    by (simp add: user0_def user1_def)
  have c: "getProp user0 ''created_at'' = getProp user1 ''created_at''"
    by (simp add: user0_def user1_def)
  have s: "getProp user0 ''secret_key'' = getProp user1 ''secret_key''"
    by (simp add: user0_def user1_def)
  have e: "walletSecret env0 = walletSecret env1"
    by (simp add: walletSecret_def env_or_def env0_def env1_def)
  have u: "user0 \<noteq> user1"
    by (simp add: user0_def user1_def)
  have "cursor w0 \<noteq> cursor w1"
    by (simp add: w0_def w1_def)
  then have w: "w0 \<noteq> w1"
    by metis
  show ?thesis
    using createCustodialWallet_deterministic [OF i c s e, of lib0 w0 w1] i c s e u w
    by simp
qed

lemma createCustodialWallet_no_effect:
  "snd (createCustodialWallet lib env userDetails w) = w"
  by (simp add: createCustodialWallet_def Let_def split: sum.splits)

section \<open>The vetting status resolver\<close>

lemma mk_args_vetting:
  "vetting_args_accepted lib env a \<Longrightarrow>
   mk_args lib [ObjectArg (Some (JStr (env_or env ''VETTING_TABLE_ID'' ''YOUR_VETTING_TABLE_ID''))),
                PureAddress a]
     = Inr [ObjectArg (Some (JStr (env_or env ''VETTING_TABLE_ID'' ''YOUR_VETTING_TABLE_ID''))),
            PureAddress a]"
  by (simp add: vetting_args_accepted_def)

lemma statusOfVetting_answered:
  assumes "vetting_configured env"
      and "vetting_args_accepted lib env a"
      and "\<forall>req. devInspectTransactionBlock cl (calls w) req = Inr result"
      and "status (ins_effects result) = ''success''"
      and "returnValues_of result = Some ((optionValue, ty) # vs)"
  shows "fst (statusOfVetting lib cl env a w) =
           Inr (if length optionValue = 1 \<and> optionValue ! 0 = 0 then notApplied a
                else if length optionValue = 2 \<and> optionValue ! 0 = 1
                then \<lparr>vs_applicantAddress = a, hasApplied = True,
                      isApproved = Some (optionValue ! 1 = 1),
                      vs_message = ''Approval status: ''
                         @ (if optionValue ! 1 = 1 then ''true'' else ''false''),
                      vs_error = None\<rparr>
                else \<lparr>vs_applicantAddress = a, hasApplied = False, isApproved = None,
                      vs_message = ''Unexpected return value'', vs_error = None\<rparr>)"
  using assms(1,3,4,5) mk_args_vetting [OF assms(2)]
  by (simp add: statusOfVetting_def vetting_configured_def Let_def
        client_devInspectTransactionBlock_def)

lemma one_byte: "(length xs = 1 \<and> xs ! 0 = (0::nat)) \<longleftrightarrow> xs = [0]"
  by (cases xs) auto

text \<open>
  Claim C2. When the query succeeds and hands back an encoded value: the one-byte value
  \<open>[0]\<close> gives "not applied"; a two-byte value whose first byte is 1 gives a decision,
  approved exactly when the second byte is 1; every other shape gives "not applied" with
  the message "Unexpected return value".
\<close>

theorem vetting_decode:
  assumes "vetting_configured env"
      and "vetting_args_accepted lib env a"
      and "\<forall>req. devInspectTransactionBlock cl (calls w) req = Inr result"
      and "status (ins_effects result) = ''success''"
      and "returnValues_of result = Some ((optionValue, ty) # vs)"
  shows "\<exists>r. fst (statusOfVetting lib cl env a w) = Inr r \<and>
           (optionValue = [0] \<longrightarrow> r = notApplied a) \<and>
           (length optionValue = 2 \<and> optionValue ! 0 = 1 \<longrightarrow>
              hasApplied r \<and> isApproved r = Some (optionValue ! 1 = 1)) \<and>
           (optionValue \<noteq> [0] \<and> \<not> (length optionValue = 2 \<and> optionValue ! 0 = 1) \<longrightarrow>
              \<not> hasApplied r \<and> isApproved r = None \<and> vs_message r = ''Unexpected return value'')"
  unfolding statusOfVetting_answered [OF assms] one_byte
  by auto

lemma cl_returning_answer:
  "\<forall>req. devInspectTransactionBlock (cl_returning bs) (calls w) req
     = Inr \<lparr>ins_effects = effects_ok,
            results = Some [\<lparr>returnValues = Some [(bs, ''0x1::option::Option<bool>'')]\<rparr>]\<rparr>"
  by (simp add: cl_returning_def)

lemma env_cfg_configured: "vetting_configured env_cfg"
  by (simp add: vetting_configured_def env_cfg_def env_or_def)

lemma lib0_accepts: "vetting_args_accepted lib0 env a"
  by (simp add: vetting_args_accepted_def lib0_def)

theorem vetting_decode_witness:
  "vetting_configured env_cfg \<and> vetting_args_accepted lib0 env_cfg (str ''0xa11ce'') \<and>
   (\<exists>r. fst (statusOfVetting lib0 (cl_returning [1, 1]) env_cfg (str ''0xa11ce'') w0) = Inr r \<and>
        hasApplied r \<and> isApproved r = Some True)"
proof -
  have s: "status (ins_effects \<lparr>ins_effects = effects_ok,
            results = Some [\<lparr>returnValues = Some [([1, 1], ''0x1::option::Option<bool>'')]\<rparr>]\<rparr>)
           = ''success''"
    by (simp add: effects_ok_def)
  have v: "returnValues_of \<lparr>ins_effects = effects_ok,
            results = Some [\<lparr>returnValues = Some [([1, 1], ''0x1::option::Option<bool>'')]\<rparr>]\<rparr>
           = Some (([1, 1], ''0x1::option::Option<bool>'') # [])"
    by (simp add: returnValues_of_def)
  show ?thesis
    using vetting_decode [OF env_cfg_configured lib0_accepts cl_returning_answer s v]
      env_cfg_configured lib0_accepts
    by auto
qed

text \<open>
  Claim C10. Every result the resolver returns has \<^verbatim>\<open>isApproved\<close> a boolean exactly
  when \<^verbatim>\<open>hasApplied\<close> is true, and \<^verbatim>\<open>null\<close> when it is false.
\<close>

theorem vetting_invariant:
  "fst (statusOfVetting lib cl env a w) = Inr r \<Longrightarrow>
     (hasApplied r \<longleftrightarrow> isApproved r \<noteq> None) \<and> (\<not> hasApplied r \<longrightarrow> isApproved r = None)"
  by (auto simp: statusOfVetting_def Let_def client_devInspectTransactionBlock_def notApplied_def
           split: if_splits sum.splits option.splits list.splits prod.splits)

lemma statusOfVetting_down:
  "fst (statusOfVetting lib0 cl_down env_cfg (str ''0xa11ce'') w0)
     = Inr ((notApplied (str ''0xa11ce''))\<lparr>vs_error := Some ''fetch failed''\<rparr>)"
  by (simp add: statusOfVetting_def Let_def client_devInspectTransactionBlock_def
        env_cfg_def env_or_def lib0_def cl_down_def)

theorem vetting_invariant_witness:
  "fst (statusOfVetting lib0 cl_down env_cfg (str ''0xa11ce'') w0)
     = Inr ((notApplied (str ''0xa11ce''))\<lparr>vs_error := Some ''fetch failed''\<rparr>) \<and>
   \<not> hasApplied ((notApplied (str ''0xa11ce''))\<lparr>vs_error := Some ''fetch failed''\<rparr>) \<and>
   isApproved ((notApplied (str ''0xa11ce''))\<lparr>vs_error := Some ''fetch failed''\<rparr>) = None"
  using vetting_invariant [OF statusOfVetting_down] statusOfVetting_down
  by (simp add: notApplied_def)

text \<open>
  Claim C3, as stated, fails: with \<^verbatim>\<open>PACKAGE_ID\<close> or \<^verbatim>\<open>VETTING_TABLE_ID\<close> unset the
  resolver throws, before its \<^verbatim>\<open>try\<close> block.
\<close>

theorem statusOfVetting_throws_unconfigured:
  "fst (statusOfVetting lib0 cl_down Map.empty (str ''0xa11ce'') w0)
     = Inl (Error ''PACKAGE_ID or VETTING_TABLE_ID not set in .env file'')"
  by (simp add: statusOfVetting_def Let_def env_or_def)

text \<open>
  Claim C3, amended. With both variables configured and the two call arguments accepted
  by the SDK, the resolver raises nothing, whatever the node answers: a thrown client
  error, a failed execution and a missing return value all give the "not applied" result
  with its message (the thrown error's text added), and \<^verbatim>\<open>hasApplied\<close> is true only
  for a successful query with a populated two-byte value.
\<close>

theorem statusOfVetting_degrades:
  assumes "vetting_configured env"
      and "vetting_args_accepted lib env a"
      and "\<forall>req. devInspectTransactionBlock cl (calls w) req = answer"
  shows "\<exists>r. fst (statusOfVetting lib cl env a w) = Inr r \<and>
           vs_message r \<noteq> [] \<and>
           (\<forall>err. answer = Inl err \<longrightarrow> r = (notApplied a)\<lparr>vs_error := Some (message err)\<rparr>) \<and>
           (\<forall>result. answer = Inr result \<and> status (ins_effects result) \<noteq> ''success''
                \<longrightarrow> r = notApplied a) \<and>
           (\<forall>result. answer = Inr result \<and>
                 (returnValues_of result = None \<or> returnValues_of result = Some [])
                \<longrightarrow> r = notApplied a) \<and>
           (hasApplied r \<longrightarrow>
              (\<exists>result optionValue ty vs. answer = Inr result \<and>
                  status (ins_effects result) = ''success'' \<and>
                  returnValues_of result = Some ((optionValue, ty) # vs) \<and>
                  length optionValue = 2 \<and> optionValue ! 0 = 1))"
  using assms(1,3) mk_args_vetting [OF assms(2)]
  by (cases answer)
     (auto simp: statusOfVetting_def vetting_configured_def Let_def notApplied_def
        client_devInspectTransactionBlock_def split: option.splits list.splits)

theorem statusOfVetting_degrades_witness:
  "vetting_configured env_cfg \<and> vetting_args_accepted lib0 env_cfg (str ''0xa11ce'') \<and>
   (\<forall>req. devInspectTransactionBlock cl_down (calls w0) req = Inl (Error ''fetch failed'')) \<and>
   fst (statusOfVetting lib0 cl_down env_cfg (str ''0xa11ce'') w0)
     = Inr ((notApplied (str ''0xa11ce''))\<lparr>vs_error := Some ''fetch failed''\<rparr>)"
proof -
  have d: "\<forall>req. devInspectTransactionBlock cl_down (calls w0) req = Inl (Error ''fetch failed'')"
    by (simp add: cl_down_def)
  show ?thesis
    using statusOfVetting_degrades [OF env_cfg_configured lib0_accepts d]
      env_cfg_configured lib0_accepts d
    by auto
qed


section \<open>Approving: the execution status is not read\<close>

lemma approveVetting_ignores_effects:
  assumes "\<forall>req. signAndExecuteTransaction cl (calls w) req = Inr result"
      and "\<forall>req. signAndExecuteTransaction cl' (calls w) req
             = Inr (result\<lparr>effects := ef, objectChanges := oc\<rparr>)"
  shows "fst (approveVetting lib cl env a w) = fst (approveVetting lib cl' env a w)"
  using assms
  by (simp add: approveVetting_def Let_def client_signAndExecuteTransaction_def
           split: option.splits sum.splits)

lemma approve_remote_throw:
  assumes "fst (approveVetting lib cl env a w) = Inl err"
      and "truthy a"
  shows "fst (post_approve_vetting lib cl env [(''applicantAddress'', the a)] w)
           = endpoint_error err ''/api/approve-vetting''"
  using assms
  by (cases a; cases "approveVetting lib cl env a w")
     (auto simp: post_approve_vetting_def Let_def)

text \<open>
  Claim C5 (a defect of the code). The node executes the approval transaction and
  reports status "failure" with error "MoveAbort"; \<^verbatim>\<open>approveVetting\<close> still returns
  \<^verbatim>\<open>success: true\<close>, "Vetting approved successfully", and the endpoint answers 200.
\<close>

theorem approve_failed_execution_reported_as_success:
  "fst (approveVetting lib0 (cl_executing effects_failed []) env_cfg (str ''0xa11ce'') w0)
     = Inr \<lparr>ar_success = True, ar_transactionDigest = ''9xDigest'',
            ar_applicantAddress = str ''0xa11ce'',
            ar_message = ''Vetting approved successfully''\<rparr> \<and>
   http_status (fst (post_approve_vetting lib0 (cl_executing effects_failed []) env_cfg
                       [(''applicantAddress'', JStr ''0xa11ce'')] w0)) = 200"
  by (simp add: approveVetting_def post_approve_vetting_def Let_def str_def
        client_signAndExecuteTransaction_def env_cfg_def env_or_def env_truthy_def lib0_def
        cl_executing_def)

section \<open>Minting: a created object that is not there\<close>

lemma mintNFT_not_found:
  assumes "fst (mintNFT lib cl env params w) = Inr r"
      and "find_created (fullResult r) ''::braav_public::NFT'' = None"
  shows "mr_success r \<and> nftObjectId r = ''Not found''"
  using assms
  by (auto simp: mintNFT_def Let_def split: option.splits sum.splits prod.splits if_splits)

lemma mintRestrictedNFT_found:
  assumes "fst (mintRestrictedNFT lib cl m p n s c l k a nm ci bv w) = Inr r"
  shows "restrictedNftObjectId r \<noteq> []"
  using assms
  by (auto simp: mintRestrictedNFT_def Let_def
           split: option.splits sum.splits prod.splits if_splits)

text \<open>
  Claim C4 (a defect of the code). The node executes the mint with status "success" and
  reports no created NFT object. \<^verbatim>\<open>mintRestrictedNFT\<close> throws "Failed to retrieve
  RestrictedNFT object ID" and its endpoint answers 500; \<^verbatim>\<open>mintNFT\<close> returns
  \<^verbatim>\<open>success: true\<close> with the object id "Not found", and its endpoint answers 200.
\<close>

theorem mint_not_found_reported_as_success:
  "\<not> isl (fst (mintNFT lib0 (cl_executing effects_ok [coin_change]) env_cfg mint_body w0)) \<and>
   mr_success (projr (fst (mintNFT lib0 (cl_executing effects_ok [coin_change]) env_cfg
                             mint_body w0))) \<and>
   nftObjectId (projr (fst (mintNFT lib0 (cl_executing effects_ok [coin_change]) env_cfg
                              mint_body w0))) = ''Not found'' \<and>
   http_status (fst (post_mint_nft lib0 (cl_executing effects_ok [coin_change]) env_cfg
                       mint_body w0)) = 200 \<and>
   http_status (fst (post_mint_restricted_nft lib0 (cl_executing effects_ok [coin_change]) env_cfg
                       restricted_body w0)) = 500"
  by (simp add: mintNFT_def post_mint_nft_def post_mint_restricted_nft_def mintRestrictedNFT_def
        restricted_precheck_def validateMintRequest_def validateRestrictedMintRequest_def
        validate_fields_def mintRequiredFields_def restrictedMintRequiredFields_def
        Let_def str_def client_signAndExecuteTransaction_def env_cfg_def env_or_def
        env_truthy_def lib0_def cl_executing_def effects_ok_def coin_change_def mint_body_def
        restricted_body_def not_success_def find_created_def find_js_def mint_failure_def)

section \<open>Validation comes before any call\<close>












section \<open>The wallet route with \<^verbatim>\<open>useStandardMnemonic\<close>\<close>

lemma standard_mnemonic_result:
  "createCustodialWalletWithStandardMnemonic lib env userDetails w
     = (Inl (ReferenceError ''privateKeyBytes is not defined''), snd (randomBytes 32 w))"
  by (simp add: createCustodialWalletWithStandardMnemonic_def Let_def split: prod.splits)

text \<open>
  Claim C9, as stated, fails: a request with the flag set and no \<^verbatim>\<open>userDetails\<close> is
  answered with 400, not with a 500-class response.
\<close>

theorem create_wallet_flag_without_user_is_400:
  "http_status (fst (post_create_wallet lib0 env0 [(''useStandardMnemonic'', JBool True)] w0)) = 400"
  by (simp add: post_create_wallet_def Let_def bad_request_def)

text \<open>
  Claim C9, amended. \<^verbatim>\<open>createCustodialWalletWithStandardMnemonic\<close> throws the
  ReferenceError on every input. A request with a truthy \<^verbatim>\<open>useStandardMnemonic\<close> is
  answered with 500 and that error's message when \<^verbatim>\<open>userDetails.id\<close> is truthy, and with
  400 otherwise; it is never answered with the success shape.
\<close>

theorem create_wallet_standard_mnemonic_fails:
  assumes "truthy (map_of body ''useStandardMnemonic'')"
  shows "fst (createCustodialWalletWithStandardMnemonic lib env userDetails w)
           = Inl (ReferenceError ''privateKeyBytes is not defined'') \<and>
         fst (post_create_wallet lib env body w)
           = (if truthy (map_of body ''userDetails'')
                 \<and> truthy (member (map_of body ''userDetails'') ''id'')
              then endpoint_error (ReferenceError ''privateKeyBytes is not defined'')
                     ''/api/create-wallet''
              else bad_request ''userDetails with id is required in request body'') \<and>
         http_status (fst (post_create_wallet lib env body w)) \<noteq> 200"
proof -
  have t: "fst (createCustodialWalletWithStandardMnemonic lib env u v)
             = Inl (ReferenceError ''privateKeyBytes is not defined'')" for u v
    by (simp add: standard_mnemonic_result)
  have p: "fst (post_create_wallet lib env body w)
           = (if truthy (map_of body ''userDetails'')
                 \<and> truthy (member (map_of body ''userDetails'') ''id'')
              then endpoint_error (ReferenceError ''privateKeyBytes is not defined'')
                     ''/api/create-wallet''
              else bad_request ''userDetails with id is required in request body'')"
    using assms
    by (simp add: post_create_wallet_def Let_def standard_mnemonic_result split: prod.splits)
  show ?thesis
    unfolding p using t by (simp add: endpoint_error_def bad_request_def)
qed

theorem create_wallet_standard_mnemonic_fails_witness:
  "truthy (map_of [(''userDetails'', JObj [(''id'', JStr ''user123'')]),
                   (''useStandardMnemonic'', JBool True)] ''useStandardMnemonic'') \<and>
   fst (post_create_wallet lib0 env0
          [(''userDetails'', JObj [(''id'', JStr ''user123'')]),
           (''useStandardMnemonic'', JBool True)] w0)
     = \<lparr>http_status = 500,
        http_body = JObj [(''error'', JStr ''privateKeyBytes is not defined''),
                          (''endpoint'', JStr ''/api/create-wallet'')]\<rparr>"
proof -
  have f: "truthy (map_of [(''userDetails'', JObj [(''id'', JStr ''user123'')]),
                           (''useStandardMnemonic'', JBool True)] ''useStandardMnemonic'')"
    by simp
  show ?thesis
    using create_wallet_standard_mnemonic_fails [OF f, of lib0 env0 None w0] f
    by (simp add: member_def endpoint_error_def obj_def str_def List.map_filter_def)
qed

end
